theory Spec2Isabelle
  imports Main
begin

section \<open>Canonical schema model\<close>

text \<open>
  The interfaces of \<^verbatim>\<open>src/index.ts\<close> as records. Field names that several interfaces
  share (\<^verbatim>\<open>name\<close>, \<^verbatim>\<open>type\<close>, \<^verbatim>\<open>columns\<close>) carry a prefix naming their
  interface. A field of type \<^verbatim>\<open>string | null\<close> and an optional field are options.
\<close>

record Column =
  col_name :: string
  col_type :: string
  nullable :: bool
  defaultVal :: "string option"
  primaryKey :: bool
  unique :: bool

record Constraint =
  con_name :: string
  con_type :: string
  con_columns :: "string list"
  references :: "string option"

text \<open>
  A JavaScript \<^verbatim>\<open>Map<string, V>\<close> keeps its entries in insertion order and holds
  each key once. It is modelled as the list of its entries in iteration order;
  \<open>wfMap\<close> is the invariant that every \<^verbatim>\<open>Map\<close> has by construction.
\<close>

type_synonym 'v strmap = "(string \<times> 'v) list"

definition mapKeys :: "'v strmap \<Rightarrow> string list" where
  "mapKeys m = map fst m"

definition mapGet :: "'v strmap \<Rightarrow> string \<Rightarrow> 'v option" where
  "mapGet m k = map_of m k"

definition mapHas :: "'v strmap \<Rightarrow> string \<Rightarrow> bool" where
  "mapHas m k = (k \<in> set (mapKeys m))"

definition wfMap :: "'v strmap \<Rightarrow> bool" where
  "wfMap m = distinct (mapKeys m)"

record Table =
  tbl_name :: string
  columns :: "Column strmap"
  constraints :: "Constraint list"

record Schema =
  tables :: "Table strmap"

record ColumnChange =
  cc_name :: string
  oldType :: string
  newType :: string
  oldNullable :: bool
  newNullable :: bool
  oldDefault :: "string option"
  newDefault :: "string option"
  breaking :: bool

record TableDiff =
  td_name :: string
  addedColumns :: "Column list"
  removedColumns :: "Column list"
  changedColumns :: "ColumnChange list"
  addedConstraints :: "Constraint list"
  removedConstraints :: "Constraint list"

record Diff =
  addedTables :: "string list"
  removedTables :: "string list"
  changedTables :: "TableDiff list"

text \<open>Every map of a schema is a \<^verbatim>\<open>Map\<close>: the table map and each table's column map.\<close>

definition wfTable :: "Table \<Rightarrow> bool" where
  "wfTable t = wfMap (columns t)"

definition wfSchema :: "Schema \<Rightarrow> bool" where
  "wfSchema s = (wfMap (tables s) \<and> list_all (\<lambda>(n, t). wfTable t) (tables s))"

section \<open>Diff engine\<close>

text \<open>\<^verbatim>\<open>Array.prototype.join\<close> on an array of strings.\<close>

fun join :: "string \<Rightarrow> string list \<Rightarrow> string" where
  "join sep [] = []"
| "join sep [x] = x"
| "join sep (x # y # ys) = x @ sep @ join sep (y # ys)"

text \<open>The template literal \<^verbatim>\<open>`${c.type}:${c.columns.join(",")}`\<close>.\<close>

definition constraintKey :: "Constraint \<Rightarrow> string" where
  "constraintKey c = con_type c @ '':'' @ join '','' (con_columns c)"

text \<open>The test of line 270 and the object pushed at lines 271 to 284.\<close>

definition columnDiffers :: "Column \<Rightarrow> Column \<Rightarrow> bool" where
  "columnDiffers oldCol newCol =
     (col_type oldCol \<noteq> col_type newCol \<or> nullable oldCol \<noteq> nullable newCol
      \<or> defaultVal oldCol \<noteq> defaultVal newCol)"

definition columnChange :: "string \<Rightarrow> Column \<Rightarrow> Column \<Rightarrow> ColumnChange" where
  "columnChange colName oldCol newCol =
     \<lparr>cc_name = colName,
      oldType = col_type oldCol,
      newType = col_type newCol,
      oldNullable = nullable oldCol,
      newNullable = nullable newCol,
      oldDefault = defaultVal oldCol,
      newDefault = defaultVal newCol,
      breaking = (col_type oldCol \<noteq> col_type newCol \<or> (nullable oldCol \<and> \<not> nullable newCol))\<rparr>"

text \<open>
  The loop over \<^verbatim>\<open>newTable.columns\<close> (lines 263 to 286). The two arrays it pushes to
  are the accumulator; \<^verbatim>\<open>push\<close> appends at the end.
\<close>

fun columnLoop ::
  "Column strmap \<Rightarrow> (string \<times> Column) list \<Rightarrow> Column list \<times> ColumnChange list
     \<Rightarrow> Column list \<times> ColumnChange list" where
  "columnLoop oldCols [] acc = acc"
| "columnLoop oldCols ((colName, newCol) # rest) (added, changed) =
     (case mapGet oldCols colName of
        None \<Rightarrow> columnLoop oldCols rest (added @ [newCol], changed)
      | Some oldCol \<Rightarrow>
          if columnDiffers oldCol newCol
          then columnLoop oldCols rest (added, changed @ [columnChange colName oldCol newCol])
          else columnLoop oldCols rest (added, changed))"

text \<open>
  The loop over \<^verbatim>\<open>oldTable.columns.keys()\<close> (lines 288 to 292). The key comes from
  the map itself, so \<^verbatim>\<open>get(colName)!\<close> is always defined; the \<open>None\<close> branch is
  never taken.
\<close>

fun removedLoop :: "Column strmap \<Rightarrow> Column strmap \<Rightarrow> string list \<Rightarrow> Column list \<Rightarrow> Column list" where
  "removedLoop oldCols newCols [] acc = acc"
| "removedLoop oldCols newCols (colName # rest) acc =
     (if \<not> mapHas newCols colName
      then (case mapGet oldCols colName of
              Some c \<Rightarrow> removedLoop oldCols newCols rest (acc @ [c])
            | None \<Rightarrow> removedLoop oldCols newCols rest acc)
      else removedLoop oldCols newCols rest acc)"

text \<open>
  The body of the loop over the tables of the new schema, for a table that the old
  schema has too (lines 256 to 306): the five lists, under the table's key. A loop
  that pushes the elements passing a test is \<open>filter\<close>; the two \<^verbatim>\<open>Set\<close>s of keys
  are the sets of the mapped lists.
\<close>

definition diffTable :: "string \<Rightarrow> Table \<Rightarrow> Table \<Rightarrow> TableDiff" where
  "diffTable name oldTable newTable =
     (let (added, changed) = columnLoop (columns oldTable) (columns newTable) ([], []);
          removed = removedLoop (columns oldTable) (columns newTable) (mapKeys (columns oldTable)) [];
          oldConstraintKeys = set (map constraintKey (constraints oldTable));
          newConstraintKeys = set (map constraintKey (constraints newTable))
      in \<lparr>td_name = name,
          addedColumns = added,
          removedColumns = removed,
          changedColumns = changed,
          addedConstraints =
            filter (\<lambda>con. constraintKey con \<notin> oldConstraintKeys) (constraints newTable),
          removedConstraints =
            filter (\<lambda>con. constraintKey con \<notin> newConstraintKeys) (constraints oldTable)\<rparr>)"

text \<open>The test of line 308: some list has a non-zero length.\<close>

definition hasChanges :: "TableDiff \<Rightarrow> bool" where
  "hasChanges td =
     (addedColumns td \<noteq> [] \<or> removedColumns td \<noteq> [] \<or> changedColumns td \<noteq> []
      \<or> addedConstraints td \<noteq> [] \<or> removedConstraints td \<noteq> [])"

text \<open>The loop over the entries of \<^verbatim>\<open>newSchema.tables\<close> (lines 252 to 318).\<close>

fun tableLoop :: "Table strmap \<Rightarrow> (string \<times> Table) list \<Rightarrow> TableDiff list \<Rightarrow> TableDiff list" where
  "tableLoop oldTables [] acc = acc"
| "tableLoop oldTables ((name, newTable) # rest) acc =
     (case mapGet oldTables name of
        None \<Rightarrow> tableLoop oldTables rest acc
      | Some oldTable \<Rightarrow>
          if hasChanges (diffTable name oldTable newTable)
          then tableLoop oldTables rest (acc @ [diffTable name oldTable newTable])
          else tableLoop oldTables rest acc)"

definition diffSchemas :: "Schema \<Rightarrow> Schema \<Rightarrow> Diff" where
  "diffSchemas oldSchema newSchema =
     \<lparr>addedTables =
        filter (\<lambda>name. \<not> mapHas (tables oldSchema) name) (mapKeys (tables newSchema)),
      removedTables =
        filter (\<lambda>name. \<not> mapHas (tables newSchema) name) (mapKeys (tables oldSchema)),
      changedTables = tableLoop (tables oldSchema) (tables newSchema) []\<rparr>"

section \<open>Breaking-change predicate and filter\<close>

text \<open>The loop of \<^verbatim>\<open>hasBreakingChanges\<close> (lines 326 to 329), with its early returns.\<close>

fun breakingLoop :: "TableDiff list \<Rightarrow> bool" where
  "breakingLoop [] = False"
| "breakingLoop (t # rest) =
     (if removedColumns t \<noteq> [] then True
      else if list_ex breaking (changedColumns t) then True
      else breakingLoop rest)"

definition hasBreakingChanges :: "Diff \<Rightarrow> bool" where
  "hasBreakingChanges diff =
     (if removedTables diff \<noteq> [] then True else breakingLoop (changedTables diff))"

definition filterBreakingOnly :: "Diff \<Rightarrow> Diff" where
  "filterBreakingOnly diff =
     \<lparr>addedTables = [],
      removedTables = removedTables diff,
      changedTables =
        filter (\<lambda>t. removedColumns t \<noteq> [] \<or> changedColumns t \<noteq> [] \<or> removedConstraints t \<noteq> [])
          (map (\<lambda>t. t\<lparr>addedColumns := [],
                       changedColumns := filter breaking (changedColumns t),
                       addedConstraints := []\<rparr>)
               (changedTables diff))\<rparr>"

section \<open>SQL parser: the column clause\<close>

text \<open>
  Text is modelled as ASCII: a \<open>char\<close> is one code unit below 128, and the character
  classes and case mappings below are those of JavaScript restricted to that range.
  \<open>isWord\<close> is \<^verbatim>\<open>\w\<close>, \<open>isSpace\<close> is \<^verbatim>\<open>\s\<close> (also what \<^verbatim>\<open>trim\<close> strips: tab,
  line feed, vertical tab, form feed, carriage return, space), \<open>isQuote\<close> is the class
  of the double quote and the backtick.
\<close>

definition isWord :: "char \<Rightarrow> bool" where
  "isWord c = (c \<in> set ''abcdefghijklmnopqrstuvwxyzABCDEFGHIJKLMNOPQRSTUVWXYZ0123456789_'')"

definition isSpace :: "char \<Rightarrow> bool" where
  "isSpace c = (c \<in> set [CHR 0x09, CHR 0x0A, CHR 0x0B, CHR 0x0C, CHR 0x0D, CHR 0x20])"

definition isQuote :: "char \<Rightarrow> bool" where
  "isQuote c = (c = CHR 0x22 \<or> c = CHR 0x60)"

definition upperChar :: "char \<Rightarrow> char" where
  "upperChar c =
     (case map_of (zip ''abcdefghijklmnopqrstuvwxyz'' ''ABCDEFGHIJKLMNOPQRSTUVWXYZ'') c of
        Some u \<Rightarrow> u | None \<Rightarrow> c)"

definition lowerChar :: "char \<Rightarrow> char" where
  "lowerChar c =
     (case map_of (zip ''ABCDEFGHIJKLMNOPQRSTUVWXYZ'' ''abcdefghijklmnopqrstuvwxyz'') c of
        Some l \<Rightarrow> l | None \<Rightarrow> c)"

definition toUpperCase :: "string \<Rightarrow> string" where
  "toUpperCase s = map upperChar s"

definition toLowerCase :: "string \<Rightarrow> string" where
  "toLowerCase s = map lowerChar s"

definition trim :: "string \<Rightarrow> string" where
  "trim s = rev (dropWhile isSpace (rev (dropWhile isSpace s)))"

definition startsWith :: "string \<Rightarrow> string \<Rightarrow> bool" where
  "startsWith s p = (take (length p) s = p)"

text \<open>\<^verbatim>\<open>String.prototype.includes\<close>: the pattern starts at some position.\<close>

fun includesStr :: "string \<Rightarrow> string \<Rightarrow> bool" where
  "includesStr [] p = (p = [])"
| "includesStr (c # cs) p = (startsWith (c # cs) p \<or> includesStr cs p)"

text \<open>\<^verbatim>\<open>String.prototype.split\<close> with a separator of one character.\<close>

fun splitAcc :: "char \<Rightarrow> string \<Rightarrow> string \<Rightarrow> string list" where
  "splitAcc sep cur [] = [cur]"
| "splitAcc sep cur (c # cs) =
     (if c = sep then cur # splitAcc sep [] cs else splitAcc sep (cur @ [c]) cs)"

definition splitOn :: "string \<Rightarrow> char \<Rightarrow> string list" where
  "splitOn s sep = splitAcc sep [] s"

text \<open>
  \<^verbatim>\<open>Map.prototype.set\<close>: a key the map holds keeps its place and takes the new value,
  a new key goes to the end.
\<close>

definition mapSet :: "'v strmap \<Rightarrow> string \<Rightarrow> 'v \<Rightarrow> 'v strmap" where
  "mapSet m k v =
     (if mapHas m k then map (\<lambda>(k', v'). if k' = k then (k', v) else (k', v')) m
      else m @ [(k, v)])"

text \<open>
  A clause reaches the column branch (line 143) when none of the four tests before it
  (lines 102, 114, 126, 139) holds; each of those branches ends in \<^verbatim>\<open>continue\<close> and
  sets no column.
\<close>

definition isColumnClause :: "string \<Rightarrow> bool" where
  "isColumnClause line =
     (let upper = trim (toUpperCase line)
      in \<not> startsWith upper ''PRIMARY KEY''
         \<and> \<not> startsWith upper ''UNIQUE''
         \<and> \<not> (startsWith upper ''FOREIGN KEY'' \<or> startsWith upper ''CONSTRAINT'')
         \<and> \<not> (startsWith upper ''CHECK'' \<or> startsWith upper ''INDEX''))"

text \<open>
  The regular expression of line 144, anchored at the start of the clause: an optional
  quote, the name \<^verbatim>\<open>(\w+)\<close>, an optional quote, \<^verbatim>\<open>\s+\<close>, and the second group
  \<^verbatim>\<open>(\w[\w() ,]*)\<close>. Every quantifier is greedy and none can give back a character
  to what follows it (what follows never accepts a character the quantifier took), so
  the match is the one that takes the longest run at each step. The result is the pair
  of the two groups.
\<close>

definition skipQuote :: "string \<Rightarrow> string" where
  "skipQuote s = (case s of [] \<Rightarrow> [] | c # cs \<Rightarrow> if isQuote c then cs else s)"

definition isTypeChar :: "char \<Rightarrow> bool" where
  "isTypeChar c = (isWord c \<or> c \<in> set ''() ,'')"

definition colMatch :: "string \<Rightarrow> (string \<times> string) option" where
  "colMatch line =
     (let s1 = skipQuote line;
          name = takeWhile isWord s1;
          s2 = skipQuote (dropWhile isWord s1);
          s3 = dropWhile isSpace s2
      in if name = [] then None
         else if takeWhile isSpace s2 = [] then None
         else (case s3 of
                 [] \<Rightarrow> None
               | c # cs \<Rightarrow> if isWord c then Some (name, c # takeWhile isTypeChar cs) else None))"

text \<open>
  The regular expression of line 151, \<^verbatim>\<open>/DEFAULT\s+([^ ,]+)/i\<close>, searched from the
  left: at the first position where the word stands (in any case) and the rest matches,
  the group is the longest run of characters other than space and comma.
  \<open>spacesThenToken\<close> is \<^verbatim>\<open>\s+([^ ,]+)\<close> with its backtracking: the longest run of
  white space first, then shorter ones.
\<close>

definition notSpaceComma :: "char \<Rightarrow> bool" where
  "notSpaceComma c = (c \<noteq> CHR '' '' \<and> c \<noteq> CHR '','')"

definition tokenAt :: "string \<Rightarrow> string option" where
  "tokenAt s = (if takeWhile notSpaceComma s = [] then None else Some (takeWhile notSpaceComma s))"

fun spacesThenToken :: "string \<Rightarrow> string option" where
  "spacesThenToken [] = None"
| "spacesThenToken (c # cs) =
     (if isSpace c
      then (case spacesThenToken cs of Some g \<Rightarrow> Some g | None \<Rightarrow> tokenAt cs)
      else None)"

definition defMatchAt :: "string \<Rightarrow> string option" where
  "defMatchAt s =
     (if toUpperCase (take 7 s) = ''DEFAULT'' then spacesThenToken (drop 7 s) else None)"

fun defMatch :: "string \<Rightarrow> string option" where
  "defMatch [] = None"
| "defMatch (c # cs) =
     (case defMatchAt (c # cs) of Some g \<Rightarrow> Some g | None \<Rightarrow> defMatch cs)"

text \<open>Lines 144 to 161: the Column of a clause, or nothing when line 144 does not match.\<close>

definition parseColumn :: "string \<Rightarrow> Column option" where
  "parseColumn line =
     (let upper = trim (toUpperCase line)
      in case colMatch line of
           None \<Rightarrow> None
         | Some (m1, m2) \<Rightarrow>
             (let colName = toLowerCase m1;
                  colType = toUpperCase (trim m2);
                  isPK = includesStr upper ''PRIMARY KEY'';
                  isUnique = includesStr upper ''UNIQUE'';
                  isNullable = (\<not> includesStr upper ''NOT NULL'' \<and> \<not> isPK)
              in Some \<lparr>col_name = colName,
                       col_type = colType,
                       nullable = isNullable,
                       defaultVal = defMatch line,
                       primaryKey = isPK,
                       unique = isUnique\<rparr>))"

text \<open>
  The columns of a table body (the second group of the \<^verbatim>\<open>CREATE TABLE\<close> match):
  line 96 splits the body at commas, trims the pieces and drops the empty ones, and the
  loop of lines 98 to 162 sets a column for each clause of the column branch that
  matches.
\<close>

fun clauseLoop :: "string list \<Rightarrow> Column strmap \<Rightarrow> Column strmap" where
  "clauseLoop [] cols = cols"
| "clauseLoop (line # rest) cols =
     (if \<not> isColumnClause line then clauseLoop rest cols
      else (case parseColumn line of
              None \<Rightarrow> clauseLoop rest cols
            | Some col \<Rightarrow> clauseLoop rest (mapSet cols (col_name col) col)))"

definition bodyColumns :: "string \<Rightarrow> Column strmap" where
  "bodyColumns body = clauseLoop (filter (\<lambda>l. l \<noteq> []) (map trim (splitOn body CHR '',''))) []"

section \<open>JSON schema parser\<close>

text \<open>
  A value that \<^verbatim>\<open>JSON.parse\<close> returns. An object is the list of its own properties
  in the order \<^verbatim>\<open>Object.entries\<close> lists them, each key once. A number carries the
  text \<^verbatim>\<open>String\<close> gives it, which is \<^verbatim>\<open>0\<close> exactly for the two zeros, the only
  numbers of JSON that are falsy.
\<close>

datatype json =
    JNull
  | JBool bool
  | JNum string
  | JStr string
  | JArr "json list"
  | JObj "(string \<times> json) list"

text \<open>
  \<open>SyntaxError\<close> is what \<^verbatim>\<open>JSON.parse\<close> throws on text that is not JSON;
  \<open>TypeError\<close> is what reading a property of \<^verbatim>\<open>null\<close> throws, and what \<^verbatim>\<open>String\<close>
  throws on an object that cannot be converted.
\<close>

datatype error = SyntaxError | TypeError

definition isNull :: "json \<Rightarrow> bool" where
  "isNull v = (case v of JNull \<Rightarrow> True | _ \<Rightarrow> False)"

text \<open>
  Reading the property \<open>p\<close> of a value that is not \<^verbatim>\<open>null\<close>; \<open>None\<close> is
  \<^verbatim>\<open>undefined\<close>. The names the parser reads (\<^verbatim>\<open>tables\<close>, \<^verbatim>\<open>columns\<close>,
  \<^verbatim>\<open>constraints\<close>, \<^verbatim>\<open>type\<close>, \<^verbatim>\<open>nullable\<close>, \<^verbatim>\<open>default\<close>, \<^verbatim>\<open>primaryKey\<close>,
  \<^verbatim>\<open>unique\<close>, \<^verbatim>\<open>name\<close>, \<^verbatim>\<open>references\<close>) are no index and no inherited property,
  so only an object can have them.
\<close>

definition getProp :: "json \<Rightarrow> string \<Rightarrow> json option" where
  "getProp v p = (case v of JObj kvs \<Rightarrow> map_of kvs p | _ \<Rightarrow> None)"

definition truthy :: "json \<Rightarrow> bool" where
  "truthy v =
     (case v of
        JNull \<Rightarrow> False
      | JBool b \<Rightarrow> b
      | JNum s \<Rightarrow> s \<noteq> ''0''
      | JStr s \<Rightarrow> s \<noteq> []
      | JArr xs \<Rightarrow> True
      | JObj kvs \<Rightarrow> True)"

fun showNat :: "nat \<Rightarrow> string" where
  "showNat n =
     (if n < 10 then [''0123456789'' ! n]
      else showNat (n div 10) @ [''0123456789'' ! (n mod 10)])"

text \<open>
  \<^verbatim>\<open>Object.entries\<close> of a value that is not \<^verbatim>\<open>null\<close>: the properties of an object,
  the indexed elements of an array, the indexed characters of a string, nothing for a
  number or a boolean.
\<close>

definition entries :: "json \<Rightarrow> (string \<times> json) list" where
  "entries v =
     (case v of
        JObj kvs \<Rightarrow> kvs
      | JArr xs \<Rightarrow> zip (map showNat [0..<length xs]) xs
      | JStr s \<Rightarrow> zip (map showNat [0..<length s]) (map (\<lambda>c. JStr [c]) s)
      | _ \<Rightarrow> [])"

text \<open>
  \<^verbatim>\<open>String(v)\<close>. An array joins the texts of its elements with commas, \<^verbatim>\<open>null\<close>
  giving the empty text. A plain object gives \<^verbatim>\<open>[object Object]\<close>, unless it has a
  property \<^verbatim>\<open>toString\<close> of its own: that one is not callable, \<^verbatim>\<open>valueOf\<close> returns
  no primitive, and the conversion throws.
\<close>

fun jsString :: "json \<Rightarrow> error + string" where
  "jsString JNull = Inr ''null''"
| "jsString (JBool b) = Inr (if b then ''true'' else ''false'')"
| "jsString (JNum s) = Inr s"
| "jsString (JStr s) = Inr s"
| "jsString (JArr xs) =
     (let parts = map (\<lambda>x. case x of JNull \<Rightarrow> Inr [] | _ \<Rightarrow> jsString x) xs
      in if list_ex isl parts then Inl TypeError else Inr (join '','' (map projr parts)))"
| "jsString (JObj kvs) =
     (if ''toString'' \<in> set (map fst kvs) then Inl TypeError else Inr ''[object Object]'')"

text \<open>
  The parser stores \<^verbatim>\<open>c.columns\<close> as it is, under the cast \<^verbatim>\<open>as string[]\<close>, and
  reads no element of it. A Constraint holds strings, as the interface declares, so the
  model takes a string element as it is and any other element as the text \<^verbatim>\<open>join\<close>
  gives it. The model is exact on arrays of strings only. An element that is an object
  with a \<^verbatim>\<open>toString\<close> property of its own has no text: the code keeps the object and
  \<^verbatim>\<open>join\<close> throws when \<open>diffSchemas\<close> builds the key, while the model holds the
  empty text for it, so a schema with such an element is outside what the model covers.
\<close>

definition columnText :: "json \<Rightarrow> string" where
  "columnText x =
     (case x of
        JNull \<Rightarrow> []
      | _ \<Rightarrow> (case jsString x of Inr s \<Rightarrow> s | Inl e \<Rightarrow> []))"

text \<open>\<^verbatim>\<open>v || ""\<close> for a property that may be missing.\<close>

definition orEmpty :: "json option \<Rightarrow> json" where
  "orEmpty r = (case r of Some v \<Rightarrow> if truthy v then v else JStr [] | None \<Rightarrow> JStr [])"

text \<open>
  The object of lines 187 to 194 for one entry of \<^verbatim>\<open>def.columns\<close>. The first thing
  evaluated reads \<^verbatim>\<open>col.type\<close>, which throws when \<^verbatim>\<open>col\<close> is \<^verbatim>\<open>null\<close>.
\<close>

definition columnOfJSON :: "string \<Rightarrow> json \<Rightarrow> error + Column" where
  "columnOfJSON colName col =
     (if isNull col then Inl TypeError
      else
        (case (case getProp col ''default'' of
                 None \<Rightarrow> Inr None
               | Some JNull \<Rightarrow> Inr None
               | Some d \<Rightarrow> map_sum id Some (jsString d)) of
           Inl e \<Rightarrow> Inl e
         | Inr dv \<Rightarrow>
             Inr \<lparr>col_name = toLowerCase colName,
                  col_type = toUpperCase (case getProp col ''type'' of Some (JStr s) \<Rightarrow> s | _ \<Rightarrow> ''TEXT''),
                  nullable = (getProp col ''nullable'' \<noteq> Some (JBool False)),
                  defaultVal = dv,
                  primaryKey = (getProp col ''primaryKey'' = Some (JBool True)),
                  unique = (getProp col ''unique'' = Some (JBool True))\<rparr>))"

text \<open>The loop of lines 185 to 195.\<close>

fun columnEntries :: "(string \<times> json) list \<Rightarrow> Column strmap \<Rightarrow> error + Column strmap" where
  "columnEntries [] cols = Inr cols"
| "columnEntries ((colName, colDef) # rest) cols =
     (case columnOfJSON colName colDef of
        Inl e \<Rightarrow> Inl e
      | Inr col \<Rightarrow> columnEntries rest (mapSet cols (toLowerCase colName) col))"

text \<open>
  The object of lines 201 to 206 for one element of \<^verbatim>\<open>def.constraints\<close>. Reading
  \<^verbatim>\<open>c.name\<close> throws when the element is \<^verbatim>\<open>null\<close>.
\<close>

definition constraintOfJSON :: "json \<Rightarrow> error + Constraint" where
  "constraintOfJSON c =
     (if isNull c then Inl TypeError
      else
        (case jsString (orEmpty (getProp c ''name'')) of
           Inl e \<Rightarrow> Inl e
         | Inr nm \<Rightarrow>
             (case jsString (orEmpty (getProp c ''type'')) of
                Inl e \<Rightarrow> Inl e
              | Inr ty \<Rightarrow>
                  (case (case getProp c ''references'' of
                           None \<Rightarrow> Inr None
                         | Some r \<Rightarrow> if truthy r then map_sum id Some (jsString r) else Inr None) of
                     Inl e \<Rightarrow> Inl e
                   | Inr rf \<Rightarrow>
                       Inr \<lparr>con_name = nm,
                            con_type = ty,
                            con_columns =
                              (case getProp c ''columns'' of
                                 Some (JArr xs) \<Rightarrow> map columnText xs
                               | _ \<Rightarrow> []),
                            references = rf\<rparr>))))"

text \<open>The loop of lines 199 to 207.\<close>

fun constraintLoop :: "json list \<Rightarrow> Constraint list \<Rightarrow> error + Constraint list" where
  "constraintLoop [] acc = Inr acc"
| "constraintLoop (con # rest) acc =
     (case constraintOfJSON con of
        Inl e \<Rightarrow> Inl e
      | Inr c \<Rightarrow> constraintLoop rest (acc @ [c]))"

text \<open>
  The body of the loop over the table definitions (lines 180 to 214). Reading
  \<^verbatim>\<open>def.columns\<close> throws when the definition is \<^verbatim>\<open>null\<close>. The columns are read
  when \<^verbatim>\<open>def.columns\<close> is truthy and of type object (an object or an array), the
  constraints when \<^verbatim>\<open>def.constraints\<close> is an array.
\<close>

definition tableOfJSON :: "string \<Rightarrow> json \<Rightarrow> error + Table" where
  "tableOfJSON tableName def =
     (if isNull def then Inl TypeError
      else
        (case (case getProp def ''columns'' of
                 Some (JObj kvs) \<Rightarrow> columnEntries (entries (JObj kvs)) []
               | Some (JArr xs) \<Rightarrow> columnEntries (entries (JArr xs)) []
               | _ \<Rightarrow> Inr []) of
           Inl e \<Rightarrow> Inl e
         | Inr cols \<Rightarrow>
             (case (case getProp def ''constraints'' of
                      Some (JArr xs) \<Rightarrow> constraintLoop xs []
                    | _ \<Rightarrow> Inr []) of
                Inl e \<Rightarrow> Inl e
              | Inr cons \<Rightarrow>
                  Inr \<lparr>tbl_name = toLowerCase tableName, columns = cols, constraints = cons\<rparr>)))"

text \<open>The loop of lines 179 to 215.\<close>

fun tableEntries :: "(string \<times> json) list \<Rightarrow> Table strmap \<Rightarrow> error + Table strmap" where
  "tableEntries [] tbls = Inr tbls"
| "tableEntries ((tableName, tableDef) # rest) tbls =
     (case tableOfJSON tableName tableDef of
        Inl e \<Rightarrow> Inl e
      | Inr t \<Rightarrow> tableEntries rest (mapSet tbls (toLowerCase tableName) t))"

text \<open>
  \<^verbatim>\<open>parseJSONSchema\<close>, from the result of \<^verbatim>\<open>JSON.parse(content)\<close>: \<open>None\<close> when
  it throws, the value otherwise. \<^verbatim>\<open>JSON.parse\<close> is the runtime's and is not modelled.
  Line 177 reads \<^verbatim>\<open>json.tables\<close>, which throws when the root is \<^verbatim>\<open>null\<close>.
\<close>

definition parseJSONSchema :: "json option \<Rightarrow> error + Schema" where
  "parseJSONSchema parsed =
     (case parsed of
        None \<Rightarrow> Inl SyntaxError
      | Some json \<Rightarrow>
          if isNull json then Inl TypeError
          else
            (let tableSource =
                   (case getProp json ''tables'' of
                      Some t \<Rightarrow> if truthy t then t else json
                    | None \<Rightarrow> json)
             in case tableEntries (entries tableSource) [] of
                  Inl e \<Rightarrow> Inl e
                | Inr tbls \<Rightarrow> Inr \<lparr>tables = tbls\<rparr>))"

section \<open>Example schemas\<close>

text \<open>
  Two versions of a schema, as Schema values. The old one has the tables \<^verbatim>\<open>users\<close>
  (\<^verbatim>\<open>id\<close>: INTEGER, primary key, not nullable; \<^verbatim>\<open>email\<close>: TEXT, nullable) and
  \<^verbatim>\<open>orders\<close> (\<^verbatim>\<open>id\<close>). The new one has \<^verbatim>\<open>users\<close> only, where \<^verbatim>\<open>email\<close> is
  not nullable and a nullable column \<^verbatim>\<open>name\<close> of type TEXT is new.
\<close>

definition exId :: Column where
  "exId = \<lparr>col_name = ''id'', col_type = ''INTEGER'', nullable = False, defaultVal = None,
           primaryKey = True, unique = False\<rparr>"

definition exEmailOld :: Column where
  "exEmailOld = \<lparr>col_name = ''email'', col_type = ''TEXT'', nullable = True, defaultVal = None,
           primaryKey = False, unique = False\<rparr>"

definition exEmailNew :: Column where
  "exEmailNew = \<lparr>col_name = ''email'', col_type = ''TEXT'', nullable = False, defaultVal = None,
           primaryKey = False, unique = False\<rparr>"

definition exName :: Column where
  "exName = \<lparr>col_name = ''name'', col_type = ''TEXT'', nullable = True, defaultVal = None,
           primaryKey = False, unique = False\<rparr>"

definition exUsersOld :: Table where
  "exUsersOld = \<lparr>tbl_name = ''users'', columns = [(''id'', exId), (''email'', exEmailOld)],
                 constraints = []\<rparr>"

definition exUsersNew :: Table where
  "exUsersNew = \<lparr>tbl_name = ''users'',
                 columns = [(''id'', exId), (''email'', exEmailNew), (''name'', exName)],
                 constraints = []\<rparr>"

definition exOrders :: Table where
  "exOrders = \<lparr>tbl_name = ''orders'', columns = [(''id'', exId)], constraints = []\<rparr>"

definition exOld :: Schema where
  "exOld = \<lparr>tables = [(''users'', exUsersOld), (''orders'', exOrders)]\<rparr>"

definition exNew :: Schema where
  "exNew = \<lparr>tables = [(''users'', exUsersNew)]\<rparr>"

text \<open>
  A Diff with one added table, one removed table, a changed table with a breaking and a
  non-breaking column change, and a changed table with an added column only.
\<close>

definition exDiff :: Diff where
  "exDiff =
     \<lparr>addedTables = [''audit''],
      removedTables = [''orders''],
      changedTables =
        [\<lparr>td_name = ''users'',
          addedColumns = [exName],
          removedColumns = [],
          changedColumns =
            [\<lparr>cc_name = ''email'', oldType = ''TEXT'', newType = ''TEXT'',
              oldNullable = True, newNullable = False, oldDefault = None, newDefault = None,
              breaking = True\<rparr>,
             \<lparr>cc_name = ''age'', oldType = ''INT'', newType = ''INT'',
              oldNullable = True, newNullable = True, oldDefault = Some ''0'',
              newDefault = Some ''1'', breaking = False\<rparr>],
          addedConstraints = [],
          removedConstraints = []\<rparr>,
         \<lparr>td_name = ''items'',
          addedColumns = [exName],
          removedColumns = [],
          changedColumns = [],
          addedConstraints = [],
          removedConstraints = []\<rparr>]\<rparr>"

text \<open>
  A Diff with nothing breaking in it: an added table, and a changed table with an added
  column, a change of default only, and an added and a removed constraint.
\<close>

definition exQuiet :: Diff where
  "exQuiet =
     \<lparr>addedTables = [''audit''],
      removedTables = [],
      changedTables =
        [\<lparr>td_name = ''users'',
          addedColumns = [exName],
          removedColumns = [],
          changedColumns =
            [\<lparr>cc_name = ''age'', oldType = ''INT'', newType = ''INT'',
              oldNullable = True, newNullable = True, oldDefault = Some ''0'',
              newDefault = Some ''1'', breaking = False\<rparr>],
          addedConstraints =
            [\<lparr>con_name = ''uq_users_email'', con_type = ''UNIQUE'', con_columns = [''email''],
              references = None\<rparr>],
          removedConstraints =
            [\<lparr>con_name = ''uq_users_name'', con_type = ''UNIQUE'', con_columns = [''name''],
              references = None\<rparr>]\<rparr>]\<rparr>"

text \<open>
  Constraints: a foreign key renamed and retargeted between two versions of a table,
  with and without a unique constraint added; and two constraints whose types differ
  and whose keys \<^verbatim>\<open>type:columns\<close> are the same string.
\<close>

definition exFkOld :: Constraint where
  "exFkOld = \<lparr>con_name = ''fk_orders_user_id'', con_type = ''FOREIGN KEY'',
              con_columns = [''user_id''], references = Some ''users(id)''\<rparr>"

definition exFkNew :: Constraint where
  "exFkNew = \<lparr>con_name = ''orders_owner'', con_type = ''FOREIGN KEY'',
              con_columns = [''user_id''], references = Some ''accounts(id)''\<rparr>"

definition exUq :: Constraint where
  "exUq = \<lparr>con_name = ''uq_orders_code'', con_type = ''UNIQUE'',
           con_columns = [''code''], references = None\<rparr>"

definition exConOld :: Schema where
  "exConOld = \<lparr>tables = [(''orders'', \<lparr>tbl_name = ''orders'', columns = [], constraints = [exFkOld]\<rparr>)]\<rparr>"

definition exConNew :: Schema where
  "exConNew = \<lparr>tables = [(''orders'', \<lparr>tbl_name = ''orders'', columns = [], constraints = [exFkNew, exUq]\<rparr>)]\<rparr>"

definition exConRenamed :: Schema where
  "exConRenamed =
     \<lparr>tables = [(''orders'', \<lparr>tbl_name = ''orders'', columns = [], constraints = [exFkNew]\<rparr>)]\<rparr>"

definition exColonA :: Constraint where
  "exColonA = \<lparr>con_name = ''a'', con_type = ''A:B'', con_columns = [''c''], references = None\<rparr>"

definition exColonB :: Constraint where
  "exColonB = \<lparr>con_name = ''b'', con_type = ''A'', con_columns = [''B:c''], references = None\<rparr>"

definition exColonOld :: Schema where
  "exColonOld = \<lparr>tables = [(''t'', \<lparr>tbl_name = ''t'', columns = [], constraints = [exColonA]\<rparr>)]\<rparr>"

definition exColonNew :: Schema where
  "exColonNew = \<lparr>tables = [(''t'', \<lparr>tbl_name = ''t'', columns = [], constraints = [exColonB]\<rparr>)]\<rparr>"

section \<open>The loops as list functions\<close>

lemma columnLoop_eq:
  "columnLoop oldCols xs (a, c) =
     (a @ map snd (filter (\<lambda>(k, v). mapGet oldCols k = None) xs),
      c @ concat (map (\<lambda>(k, v). (case mapGet oldCols k of None \<Rightarrow> []
            | Some oc \<Rightarrow> if columnDiffers oc v then [columnChange k oc v] else [])) xs))"
  by (induction xs arbitrary: a c) (auto split: option.splits)

lemma removedLoop_eq:
  "removedLoop oldCols newCols ks acc =
     acc @ concat (map (\<lambda>k. if mapHas newCols k then []
            else (case mapGet oldCols k of Some c \<Rightarrow> [c] | None \<Rightarrow> [])) ks)"
  by (induction ks arbitrary: acc) (auto split: option.splits)

lemma tableLoop_eq:
  "tableLoop oldTables xs acc =
     acc @ concat (map (\<lambda>(n, nt). (case mapGet oldTables n of None \<Rightarrow> []
            | Some ot \<Rightarrow> if hasChanges (diffTable n ot nt) then [diffTable n ot nt] else [])) xs)"
  by (induction xs arbitrary: acc) (auto split: option.splits)

lemma in_guarded_singleton:
  "y \<in> set (case r of None \<Rightarrow> [] | Some v \<Rightarrow> if P v then [f v] else []) \<longleftrightarrow>
     (\<exists>v. r = Some v \<and> P v \<and> y = f v)"
  by (cases r) auto

lemma changedTables_iff:
  "td \<in> set (changedTables (diffSchemas old new)) \<longleftrightarrow>
     (\<exists>n nt ot. (n, nt) \<in> set (tables new) \<and> mapGet (tables old) n = Some ot
        \<and> hasChanges (diffTable n ot nt) \<and> td = diffTable n ot nt)"
proof -
  have "td \<in> set (changedTables (diffSchemas old new)) \<longleftrightarrow>
      (\<exists>x \<in> set (tables new). td \<in> set (case x of (n, nt) \<Rightarrow> (case mapGet (tables old) n of None \<Rightarrow> []
            | Some ot \<Rightarrow> if hasChanges (diffTable n ot nt) then [diffTable n ot nt] else [])))"
    by (simp add: diffSchemas_def tableLoop_eq)
  also have "\<dots> \<longleftrightarrow> (\<exists>n nt ot. (n, nt) \<in> set (tables new) \<and> mapGet (tables old) n = Some ot
        \<and> hasChanges (diffTable n ot nt) \<and> td = diffTable n ot nt)"
    unfolding Bex_def split_paired_Ex prod.case in_guarded_singleton by blast
  finally show ?thesis .
qed

lemma changedColumns_diffTable:
  "changedColumns (diffTable n ot nt) =
     concat (map (\<lambda>(k, v). (case mapGet (columns ot) k of None \<Rightarrow> []
            | Some oc \<Rightarrow> if columnDiffers oc v then [columnChange k oc v] else [])) (columns nt))"
  by (simp add: diffTable_def columnLoop_eq)

lemma addedColumns_diffTable:
  "addedColumns (diffTable n ot nt) =
     map snd (filter (\<lambda>(k, v). mapGet (columns ot) k = None) (columns nt))"
  by (simp add: diffTable_def columnLoop_eq)

lemma removedColumns_diffTable:
  "removedColumns (diffTable n ot nt) =
     concat (map (\<lambda>k. if mapHas (columns nt) k then []
            else (case mapGet (columns ot) k of Some c \<Rightarrow> [c] | None \<Rightarrow> [])) (mapKeys (columns ot)))"
  by (simp add: diffTable_def removedLoop_eq split: prod.splits)

lemma changedColumns_iff:
  "cc \<in> set (changedColumns (diffTable n ot nt)) \<longleftrightarrow>
     (\<exists>k nc oc. (k, nc) \<in> set (columns nt) \<and> mapGet (columns ot) k = Some oc
        \<and> columnDiffers oc nc \<and> cc = columnChange k oc nc)"
proof -
  have "cc \<in> set (changedColumns (diffTable n ot nt)) \<longleftrightarrow>
      (\<exists>x \<in> set (columns nt). cc \<in> set (case x of (k, v) \<Rightarrow> (case mapGet (columns ot) k of None \<Rightarrow> []
            | Some oc \<Rightarrow> if columnDiffers oc v then [columnChange k oc v] else [])))"
    by (simp add: changedColumns_diffTable)
  also have "\<dots> \<longleftrightarrow> (\<exists>k nc oc. (k, nc) \<in> set (columns nt) \<and> mapGet (columns ot) k = Some oc
        \<and> columnDiffers oc nc \<and> cc = columnChange k oc nc)"
    unfolding Bex_def split_paired_Ex prod.case in_guarded_singleton by blast
  finally show ?thesis .
qed

section \<open>Properties\<close>

lemma td_name_diffTable: "td_name (diffTable n ot nt) = n"
  by (simp add: diffTable_def split: prod.splits)

lemma breaking_columnChange:
  "breaking (columnChange k oc nc) \<longleftrightarrow>
     (oldType (columnChange k oc nc) \<noteq> newType (columnChange k oc nc)
      \<or> (oldNullable (columnChange k oc nc) \<and> \<not> newNullable (columnChange k oc nc)))"
  by (simp add: columnChange_def)

text \<open>
  Claim C1. Every ColumnChange that \<open>diffSchemas\<close> emits has \<open>breaking\<close> set exactly
  when its old and new type differ, or the column went from nullable to not nullable.
  And for a table in both schemas and a column in both tables whose type, nullable or
  defaultVal differ, \<open>diffSchemas\<close> emits, under the table's name, the ColumnChange that
  echoes the six fields and carries that flag. So a change of defaultVal alone, or of
  nullable from false to true with the type unchanged, is emitted with \<open>breaking = False\<close>.
\<close>

theorem diffSchemas_breaking_iff:
  "(\<forall>td \<in> set (changedTables (diffSchemas old new)). \<forall>cc \<in> set (changedColumns td).
       breaking cc \<longleftrightarrow> (oldType cc \<noteq> newType cc \<or> (oldNullable cc \<and> \<not> newNullable cc)))
   \<and> ((n, nt) \<in> set (tables new) \<and> mapGet (tables old) n = Some ot
        \<and> (k, nc) \<in> set (columns nt) \<and> mapGet (columns ot) k = Some oc
        \<and> (col_type oc \<noteq> col_type nc \<or> nullable oc \<noteq> nullable nc \<or> defaultVal oc \<noteq> defaultVal nc)
       \<longrightarrow> (\<exists>td \<in> set (changedTables (diffSchemas old new)). td_name td = n \<and>
             \<lparr>cc_name = k, oldType = col_type oc, newType = col_type nc,
              oldNullable = nullable oc, newNullable = nullable nc,
              oldDefault = defaultVal oc, newDefault = defaultVal nc,
              breaking = (col_type oc \<noteq> col_type nc \<or> (nullable oc \<and> \<not> nullable nc))\<rparr>
               \<in> set (changedColumns td)))"
proof (intro conjI ballI impI)
  fix td cc
  assume "td \<in> set (changedTables (diffSchemas old new))" and cc: "cc \<in> set (changedColumns td)"
  then obtain n' nt' ot' where "td = diffTable n' ot' nt'"
    unfolding changedTables_iff by blast
  with cc have "cc \<in> set (changedColumns (diffTable n' ot' nt'))" by simp
  then obtain k' nc' oc' where "cc = columnChange k' oc' nc'"
    unfolding changedColumns_iff by blast
  then show "breaking cc \<longleftrightarrow> (oldType cc \<noteq> newType cc \<or> (oldNullable cc \<and> \<not> newNullable cc))"
    by (simp add: breaking_columnChange)
next
  assume a: "(n, nt) \<in> set (tables new) \<and> mapGet (tables old) n = Some ot
        \<and> (k, nc) \<in> set (columns nt) \<and> mapGet (columns ot) k = Some oc
        \<and> (col_type oc \<noteq> col_type nc \<or> nullable oc \<noteq> nullable nc \<or> defaultVal oc \<noteq> defaultVal nc)"
  then have d: "columnDiffers oc nc" by (simp add: columnDiffers_def)
  with a have cc: "columnChange k oc nc \<in> set (changedColumns (diffTable n ot nt))"
    unfolding changedColumns_iff by blast
  then have "hasChanges (diffTable n ot nt)"
    by (auto simp: hasChanges_def)
  with a have "diffTable n ot nt \<in> set (changedTables (diffSchemas old new))"
    unfolding changedTables_iff by blast
  with cc show "\<exists>td \<in> set (changedTables (diffSchemas old new)). td_name td = n \<and>
             \<lparr>cc_name = k, oldType = col_type oc, newType = col_type nc,
              oldNullable = nullable oc, newNullable = nullable nc,
              oldDefault = defaultVal oc, newDefault = defaultVal nc,
              breaking = (col_type oc \<noteq> col_type nc \<or> (nullable oc \<and> \<not> nullable nc))\<rparr>
               \<in> set (changedColumns td)"
    by (auto simp: td_name_diffTable columnChange_def intro!: bexI[where x="diffTable n ot nt"])
qed

theorem diffSchemas_breaking_iff_witness:
  "\<exists>td \<in> set (changedTables (diffSchemas exOld exNew)). td_name td = ''users'' \<and>
      \<lparr>cc_name = ''email'', oldType = ''TEXT'', newType = ''TEXT'',
       oldNullable = True, newNullable = False, oldDefault = None, newDefault = None,
       breaking = True\<rparr> \<in> set (changedColumns td)"
  using diffSchemas_breaking_iff [where old = exOld and new = exNew and n = "''users''"
      and nt = exUsersNew and ot = exUsersOld and k = "''email''" and nc = exEmailNew
      and oc = exEmailOld]
  by (simp add: exId_def exEmailOld_def exEmailNew_def exName_def exUsersOld_def
      exUsersNew_def exOrders_def exOld_def exNew_def mapGet_def)

lemma breakingLoop_iff:
  "breakingLoop ts \<longleftrightarrow>
     (\<exists>t \<in> set ts. removedColumns t \<noteq> [] \<or> (\<exists>c \<in> set (changedColumns t). breaking c))"
  by (induction ts) (auto simp: list_ex_iff)

text \<open>
  Claim C2. \<open>hasBreakingChanges d\<close> holds exactly when \<open>removedTables d\<close> is not empty,
  or some changed table has a removed column, or some changed table has a ColumnChange
  with \<open>breaking\<close> set. No other field of the Diff is read: when none of the three
  holds, the result is false whatever the added tables, added columns, constraints and
  non-breaking changes are.
\<close>

theorem hasBreakingChanges_iff:
  "(hasBreakingChanges d \<longleftrightarrow>
     (removedTables d \<noteq> []
      \<or> (\<exists>t \<in> set (changedTables d). removedColumns t \<noteq> [])
      \<or> (\<exists>t \<in> set (changedTables d). \<exists>c \<in> set (changedColumns t). breaking c)))
   \<and> (removedTables d = []
        \<and> (\<forall>t \<in> set (changedTables d). removedColumns t = []
              \<and> (\<forall>c \<in> set (changedColumns t). \<not> breaking c))
       \<longrightarrow> \<not> hasBreakingChanges d)"
  by (auto simp: hasBreakingChanges_def breakingLoop_iff)

theorem hasBreakingChanges_iff_witness:
  "hasBreakingChanges (diffSchemas exOld exNew)
   \<and> removedTables (diffSchemas exOld exNew) = [''orders'']
   \<and> \<not> hasBreakingChanges exQuiet"
  using hasBreakingChanges_iff [of "diffSchemas exOld exNew"] hasBreakingChanges_iff [of exQuiet]
  by (simp add: diffSchemas_def exId_def exEmailOld_def exEmailNew_def exName_def
      exUsersOld_def exUsersNew_def exOrders_def exOld_def exNew_def mapHas_def mapKeys_def
      exQuiet_def)

lemma breaking_part_record:
  "t\<lparr>addedColumns := [], changedColumns := cs, addedConstraints := []\<rparr> =
     \<lparr>td_name = td_name t, addedColumns = [], removedColumns = removedColumns t,
      changedColumns = cs, addedConstraints = [], removedConstraints = removedConstraints t\<rparr>"
  by (cases t) simp

lemma filter_breaking_part:
  "filter (\<lambda>t. removedColumns t \<noteq> [] \<or> changedColumns t \<noteq> [] \<or> removedConstraints t \<noteq> [])
          (map (\<lambda>t. t\<lparr>addedColumns := [],
                       changedColumns := filter breaking (changedColumns t),
                       addedConstraints := []\<rparr>) ts) =
       [\<lparr>td_name = td_name t,
          addedColumns = [],
          removedColumns = removedColumns t,
          changedColumns = filter breaking (changedColumns t),
          addedConstraints = [],
          removedConstraints = removedConstraints t\<rparr>.
        t \<leftarrow> ts,
        \<not> (removedColumns t = [] \<and> filter breaking (changedColumns t) = []
           \<and> removedConstraints t = [])]"
  by (induction ts) (auto simp: breaking_part_record)

text \<open>
  Claim C3. \<open>filterBreakingOnly d\<close> has no added tables and the removed tables of \<open>d\<close>.
  Its changed tables are those of \<open>d\<close>, in order, for which the removed columns, the
  breaking column changes and the removed constraints are not all empty; each keeps its
  name, removed columns and removed constraints, has its column changes restricted to
  the breaking ones, and has no added columns and no added constraints.
\<close>

theorem filterBreakingOnly_spec:
  "addedTables (filterBreakingOnly d) = []
   \<and> removedTables (filterBreakingOnly d) = removedTables d
   \<and> changedTables (filterBreakingOnly d) =
       [\<lparr>td_name = td_name t,
          addedColumns = [],
          removedColumns = removedColumns t,
          changedColumns = filter breaking (changedColumns t),
          addedConstraints = [],
          removedConstraints = removedConstraints t\<rparr>.
        t \<leftarrow> changedTables d,
        \<not> (removedColumns t = [] \<and> filter breaking (changedColumns t) = []
           \<and> removedConstraints t = [])]"
proof -
  have "changedTables (filterBreakingOnly d) =
       [\<lparr>td_name = td_name t,
          addedColumns = [],
          removedColumns = removedColumns t,
          changedColumns = filter breaking (changedColumns t),
          addedConstraints = [],
          removedConstraints = removedConstraints t\<rparr>.
        t \<leftarrow> changedTables d,
        \<not> (removedColumns t = [] \<and> filter breaking (changedColumns t) = []
           \<and> removedConstraints t = [])]"
    unfolding filterBreakingOnly_def Diff.select_convs by (rule filter_breaking_part)
  then show ?thesis by (simp add: filterBreakingOnly_def)
qed

theorem filterBreakingOnly_spec_witness:
  "addedTables (filterBreakingOnly exDiff) = []
   \<and> removedTables (filterBreakingOnly exDiff) = [''orders'']
   \<and> changedTables (filterBreakingOnly exDiff) =
        [\<lparr>td_name = ''users'',
          addedColumns = [],
          removedColumns = [],
          changedColumns =
            [\<lparr>cc_name = ''email'', oldType = ''TEXT'', newType = ''TEXT'',
              oldNullable = True, newNullable = False, oldDefault = None, newDefault = None,
              breaking = True\<rparr>],
          addedConstraints = [],
          removedConstraints = []\<rparr>]"
  using filterBreakingOnly_spec [of exDiff]
  by (simp add: exDiff_def)

text \<open>
  Claim C8. The added tables of \<open>diffSchemas A B\<close> are the removed tables of
  \<open>diffSchemas B A\<close>, and the removed tables of the first are the added tables of the
  second, as lists: same names in the same order.
\<close>

theorem diffSchemas_tables_symmetric:
  "addedTables (diffSchemas A B) = removedTables (diffSchemas B A)
   \<and> removedTables (diffSchemas A B) = addedTables (diffSchemas B A)"
  by (simp add: diffSchemas_def)

theorem diffSchemas_tables_symmetric_witness:
  "addedTables (diffSchemas exNew exOld) = [''orders'']
   \<and> removedTables (diffSchemas exOld exNew) = [''orders'']"
  using diffSchemas_tables_symmetric [of exNew exOld]
  by (simp add: diffSchemas_def exId_def exEmailOld_def exEmailNew_def exName_def
      exUsersOld_def exUsersNew_def exOrders_def exOld_def exNew_def mapHas_def mapKeys_def)

text \<open>
  Claim C10. Filtering a Diff to its breaking changes does not change what
  \<open>hasBreakingChanges\<close> says of it.
\<close>

theorem hasBreakingChanges_filterBreakingOnly:
  "hasBreakingChanges (filterBreakingOnly d) = hasBreakingChanges d"
  by (auto simp: hasBreakingChanges_def breakingLoop_iff filterBreakingOnly_def filter_empty_conv)

theorem hasBreakingChanges_filterBreakingOnly_witness:
  "hasBreakingChanges (filterBreakingOnly exDiff) \<and> hasBreakingChanges exDiff"
  using hasBreakingChanges_filterBreakingOnly [of exDiff]
  by (simp add: exDiff_def hasBreakingChanges_def)

lemma mapGet_distinct: "wfMap m \<Longrightarrow> (k, v) \<in> set m \<Longrightarrow> mapGet m k = Some v"
  by (simp add: wfMap_def mapKeys_def mapGet_def)

lemma columnDiffers_same: "\<not> columnDiffers c c"
  by (simp add: columnDiffers_def)

lemma diffTable_self:
  assumes "wfMap (columns t)"
  shows "\<not> hasChanges (diffTable n t t)"
proof -
  have a: "addedColumns (diffTable n t t) = []"
    using assms by (auto simp: addedColumns_diffTable filter_empty_conv mapGet_distinct)
  have c: "changedColumns (diffTable n t t) = []"
    using assms by (auto simp: changedColumns_diffTable mapGet_distinct columnDiffers_same)
  have r: "removedColumns (diffTable n t t) = []"
    by (auto simp: removedColumns_diffTable mapHas_def)
  have k: "addedConstraints (diffTable n t t) = [] \<and> removedConstraints (diffTable n t t) = []"
    by (simp add: diffTable_def split: prod.splits)
  from a c r k show ?thesis by (simp add: hasChanges_def)
qed

text \<open>
  Claim C7. For every schema \<open>S\<close> (a schema's maps hold each key once, \<open>wfSchema\<close>),
  \<open>diffSchemas S S\<close> is the empty Diff: no added, no removed and no changed tables.
\<close>

theorem diffSchemas_self:
  assumes "wfSchema S"
  shows "diffSchemas S S = \<lparr>addedTables = [], removedTables = [], changedTables = []\<rparr>"
proof -
  have keys: "filter (\<lambda>name. \<not> mapHas (tables S) name) (mapKeys (tables S)) = []"
    by (simp add: filter_empty_conv mapHas_def)
  have "\<And>n t. (n, t) \<in> set (tables S) \<Longrightarrow>
      mapGet (tables S) n = Some t \<and> \<not> hasChanges (diffTable n t t)"
    using assms by (auto simp: wfSchema_def wfTable_def list_all_iff mapGet_distinct diffTable_self)
  then have "tableLoop (tables S) (tables S) [] = []"
    by (auto simp: tableLoop_eq)
  with keys show ?thesis by (simp add: diffSchemas_def)
qed

theorem diffSchemas_self_witness:
  "wfSchema exOld \<and> diffSchemas exOld exOld = \<lparr>addedTables = [], removedTables = [], changedTables = []\<rparr>"
proof -
  have w: "wfSchema exOld"
    by (simp add: wfSchema_def wfTable_def wfMap_def mapKeys_def exId_def exEmailOld_def
        exEmailNew_def exName_def exUsersOld_def exUsersNew_def exOrders_def exOld_def
        exNew_def)
  from w diffSchemas_self [OF w] show ?thesis by simp
qed

lemma named_td:
  assumes "wfMap (tables new)" and "(n, nt) \<in> set (tables new)"
    and "mapGet (tables old) n = Some ot"
    and "td \<in> set (changedTables (diffSchemas old new))" and "td_name td = n"
  shows "td = diffTable n ot nt \<and> hasChanges (diffTable n ot nt)"
proof -
  from assms(4) obtain n' nt' ot' where h: "(n', nt') \<in> set (tables new)"
      "mapGet (tables old) n' = Some ot'" "hasChanges (diffTable n' ot' nt')"
      "td = diffTable n' ot' nt'"
    unfolding changedTables_iff by blast
  with assms(5) have n: "n' = n" by (simp add: td_name_diffTable)
  from n h(1) assms(1) have "mapGet (tables new) n = Some nt'"
    by (simp add: mapGet_distinct)
  moreover from assms(1,2) have "mapGet (tables new) n = Some nt"
    by (simp add: mapGet_distinct)
  ultimately have "nt' = nt" by simp
  moreover from n h(2) assms(3) have "ot' = ot" by simp
  ultimately show ?thesis using h n by simp
qed

text \<open>
  Claim C9. Every TableDiff among the changed tables of \<open>diffSchemas old new\<close>, and
  every TableDiff among the changed tables of \<open>filterBreakingOnly d\<close>, has a non-empty
  list among its added, removed and changed columns and its added and removed
  constraints. And a table of both schemas whose comparison leaves the five lists empty
  has no entry under its name among the changed tables.
\<close>

theorem changedTables_nonempty:
  "(\<forall>td \<in> set (changedTables (diffSchemas old new)).
       addedColumns td \<noteq> [] \<or> removedColumns td \<noteq> [] \<or> changedColumns td \<noteq> []
       \<or> addedConstraints td \<noteq> [] \<or> removedConstraints td \<noteq> [])
   \<and> (\<forall>td \<in> set (changedTables (filterBreakingOnly d)).
       addedColumns td \<noteq> [] \<or> removedColumns td \<noteq> [] \<or> changedColumns td \<noteq> []
       \<or> addedConstraints td \<noteq> [] \<or> removedConstraints td \<noteq> [])
   \<and> (wfMap (tables new) \<and> (n, nt) \<in> set (tables new) \<and> mapGet (tables old) n = Some ot
        \<and> addedColumns (diffTable n ot nt) = [] \<and> removedColumns (diffTable n ot nt) = []
        \<and> changedColumns (diffTable n ot nt) = [] \<and> addedConstraints (diffTable n ot nt) = []
        \<and> removedConstraints (diffTable n ot nt) = []
       \<longrightarrow> n \<notin> td_name ` set (changedTables (diffSchemas old new)))"
proof (intro conjI ballI impI)
  fix td assume "td \<in> set (changedTables (diffSchemas old new))"
  then have "hasChanges td" unfolding changedTables_iff by blast
  then show "addedColumns td \<noteq> [] \<or> removedColumns td \<noteq> [] \<or> changedColumns td \<noteq> []
       \<or> addedConstraints td \<noteq> [] \<or> removedConstraints td \<noteq> []"
    by (simp add: hasChanges_def)
next
  fix td assume "td \<in> set (changedTables (filterBreakingOnly d))"
  then show "addedColumns td \<noteq> [] \<or> removedColumns td \<noteq> [] \<or> changedColumns td \<noteq> []
       \<or> addedConstraints td \<noteq> [] \<or> removedConstraints td \<noteq> []"
    by (auto simp: filterBreakingOnly_def)
next
  assume a: "wfMap (tables new) \<and> (n, nt) \<in> set (tables new) \<and> mapGet (tables old) n = Some ot
        \<and> addedColumns (diffTable n ot nt) = [] \<and> removedColumns (diffTable n ot nt) = []
        \<and> changedColumns (diffTable n ot nt) = [] \<and> addedConstraints (diffTable n ot nt) = []
        \<and> removedConstraints (diffTable n ot nt) = []"
  then have "\<not> hasChanges (diffTable n ot nt)" by (simp add: hasChanges_def)
  with a show "n \<notin> td_name ` set (changedTables (diffSchemas old new))"
    using named_td by blast
qed

theorem changedTables_nonempty_witness:
  "(\<exists>td \<in> set (changedTables (diffSchemas exOld exNew)). td_name td = ''users'' \<and> addedColumns td = [exName])
   \<and> (\<exists>td \<in> set (changedTables (filterBreakingOnly exDiff)). td_name td = ''users'')
   \<and> ''users'' \<notin> td_name ` set (changedTables (diffSchemas exOld exOld))"
proof -
  have d: "diffTable ''users'' exUsersOld exUsersNew \<in> set (changedTables (diffSchemas exOld exNew))"
    by (simp add: diffSchemas_def exId_def exEmailOld_def exEmailNew_def exName_def
        exUsersOld_def exUsersNew_def exOrders_def exOld_def exNew_def mapGet_def mapHas_def
        mapKeys_def diffTable_def hasChanges_def
        columnDiffers_def)
  have f: "\<exists>td \<in> set (changedTables (filterBreakingOnly exDiff)). td_name td = ''users''"
    by (simp add: filterBreakingOnly_def exDiff_def)
  have s: "addedColumns (diffTable ''users'' exUsersOld exUsersOld) = [] \<and> removedColumns (diffTable ''users'' exUsersOld exUsersOld) = []
        \<and> changedColumns (diffTable ''users'' exUsersOld exUsersOld) = []
        \<and> addedConstraints (diffTable ''users'' exUsersOld exUsersOld) = []
        \<and> removedConstraints (diffTable ''users'' exUsersOld exUsersOld) = []"
    by (simp add: exId_def exEmailOld_def exEmailNew_def exName_def exUsersOld_def
        exUsersNew_def exOrders_def exOld_def exNew_def mapGet_def mapHas_def mapKeys_def
        diffTable_def columnDiffers_def)
  have w: "wfMap (tables exOld) \<and> (''users'', exUsersOld) \<in> set (tables exOld) \<and> mapGet (tables exOld) ''users'' = Some exUsersOld"
    by (simp add: wfMap_def mapKeys_def mapGet_def exOld_def)
  have a: "addedColumns (diffTable ''users'' exUsersOld exUsersNew) = [exName]"
    by (simp add: exId_def exEmailOld_def exEmailNew_def exName_def exUsersOld_def
        exUsersNew_def exOrders_def exOld_def exNew_def mapGet_def mapHas_def mapKeys_def
        diffTable_def columnDiffers_def)
  from d a f s w changedTables_nonempty [of exOld exOld exDiff "''users''" exUsersOld exUsersOld]
  show ?thesis by (auto simp: td_name_diffTable)
qed

lemma addedConstraints_diffTable:
  "addedConstraints (diffTable n ot nt) =
     [c \<leftarrow> constraints nt. \<not> (\<exists>p \<in> set (constraints ot). constraintKey p = constraintKey c)]"
  by (auto simp: diffTable_def image_iff split: prod.splits intro!: filter_cong)

lemma removedConstraints_diffTable:
  "removedConstraints (diffTable n ot nt) =
     [c \<leftarrow> constraints ot. \<not> (\<exists>p \<in> set (constraints nt). constraintKey p = constraintKey c)]"
  by (auto simp: diffTable_def image_iff split: prod.splits intro!: filter_cong)

lemma split_at_first:
  "x \<notin> set xs \<Longrightarrow> x \<notin> set xs' \<Longrightarrow>
     (xs @ x # ys = xs' @ x # ys') = (xs = xs' \<and> ys = ys')"
proof (induction xs arbitrary: xs')
  case Nil
  then show ?case by (cases xs') auto
next
  case (Cons a xs)
  then show ?case by (cases xs') auto
qed

lemma constraintKey_eq_iff:
  assumes "CHR '':'' \<notin> set (con_type a)" and "CHR '':'' \<notin> set (con_type b)"
  shows "constraintKey a = constraintKey b \<longleftrightarrow>
     (con_type a = con_type b \<and> join '','' (con_columns a) = join '','' (con_columns b))"
  using assms by (simp add: constraintKey_def split_at_first)

lemma same_ident_same_keys:
  assumes "map (\<lambda>c. (con_type c, con_columns c)) xs = map (\<lambda>c. (con_type c, con_columns c)) ys"
  shows "map constraintKey xs = map constraintKey ys"
proof -
  have "map constraintKey xs = map (\<lambda>(t, cs). t @ '':'' @ join '','' cs) (map (\<lambda>c. (con_type c, con_columns c)) xs)"
    by (simp add: constraintKey_def)
  also have "\<dots> = map (\<lambda>(t, cs). t @ '':'' @ join '','' cs) (map (\<lambda>c. (con_type c, con_columns c)) ys)"
    using assms by simp
  also have "\<dots> = map constraintKey ys"
    by (simp add: constraintKey_def)
  finally show ?thesis .
qed

lemma same_keys_no_constraint_change:
  assumes "map constraintKey (constraints ot) = map constraintKey (constraints nt)"
  shows "addedConstraints (diffTable n ot nt) = [] \<and> removedConstraints (diffTable n ot nt) = []"
proof -
  from assms have "set (map constraintKey (constraints ot)) = set (map constraintKey (constraints nt))"
    by simp
  then have "constraintKey ` set (constraints ot) = constraintKey ` set (constraints nt)"
    by simp
  then show ?thesis
    by (auto simp: diffTable_def filter_empty_conv split: prod.splits)
qed

text \<open>
  What the comparison of a table of both schemas reports of its constraints. A
  constraint of the new table is listed as added exactly when no constraint of the old
  table has the same key, and likewise for removed constraints; when no constraint type
  of the two tables contains a colon, equal keys are equal types and equal
  columns-joined-by-comma strings. Names and references are never read: when the
  constraints of the two tables have the same types and column lists, in order, none is
  listed as added or removed.
\<close>

lemma constraint_lists:
  assumes "wfMap (tables new)" and "(n, nt) \<in> set (tables new)"
    and "mapGet (tables old) n = Some ot"
  shows
    "(\<forall>td \<in> set (changedTables (diffSchemas old new)). td_name td = n \<longrightarrow>
        addedConstraints td =
          [c \<leftarrow> constraints nt. \<not> (\<exists>p \<in> set (constraints ot).
              con_type p @ '':'' @ join '','' (con_columns p)
                = con_type c @ '':'' @ join '','' (con_columns c))]
        \<and> removedConstraints td =
          [c \<leftarrow> constraints ot. \<not> (\<exists>p \<in> set (constraints nt).
              con_type p @ '':'' @ join '','' (con_columns p)
                = con_type c @ '':'' @ join '','' (con_columns c))])
     \<and> ((\<forall>c \<in> set (constraints ot) \<union> set (constraints nt). CHR '':'' \<notin> set (con_type c)) \<longrightarrow>
        (\<forall>td \<in> set (changedTables (diffSchemas old new)). td_name td = n \<longrightarrow>
          addedConstraints td =
            [c \<leftarrow> constraints nt. \<not> (\<exists>p \<in> set (constraints ot).
                con_type p = con_type c
                \<and> join '','' (con_columns p) = join '','' (con_columns c))]
          \<and> removedConstraints td =
            [c \<leftarrow> constraints ot. \<not> (\<exists>p \<in> set (constraints nt).
                con_type p = con_type c
                \<and> join '','' (con_columns p) = join '','' (con_columns c))]))
     \<and> (map (\<lambda>c. (con_type c, con_columns c)) (constraints ot)
          = map (\<lambda>c. (con_type c, con_columns c)) (constraints nt) \<longrightarrow>
        addedConstraints (diffTable n ot nt) = [] \<and> removedConstraints (diffTable n ot nt) = []
        \<and> (\<forall>td \<in> set (changedTables (diffSchemas old new)). td_name td = n \<longrightarrow>
              addedConstraints td = [] \<and> removedConstraints td = []))"
proof (intro conjI impI ballI)
  fix td assume td: "td \<in> set (changedTables (diffSchemas old new))" "td_name td = n"
  with assms have e: "td = diffTable n ot nt" using named_td by blast
  show "addedConstraints td =
          [c \<leftarrow> constraints nt. \<not> (\<exists>p \<in> set (constraints ot).
              con_type p @ '':'' @ join '','' (con_columns p)
                = con_type c @ '':'' @ join '','' (con_columns c))]"
    unfolding e addedConstraints_diffTable constraintKey_def ..
  show "removedConstraints td =
          [c \<leftarrow> constraints ot. \<not> (\<exists>p \<in> set (constraints nt).
              con_type p @ '':'' @ join '','' (con_columns p)
                = con_type c @ '':'' @ join '','' (con_columns c))]"
    unfolding e removedConstraints_diffTable constraintKey_def ..
next
  fix td
  assume nc: "\<forall>c \<in> set (constraints ot) \<union> set (constraints nt). CHR '':'' \<notin> set (con_type c)"
  assume td: "td \<in> set (changedTables (diffSchemas old new))" "td_name td = n"
  with assms have e: "td = diffTable n ot nt" using named_td by blast
  show "addedConstraints td =
            [c \<leftarrow> constraints nt. \<not> (\<exists>p \<in> set (constraints ot).
                con_type p = con_type c
                \<and> join '','' (con_columns p) = join '','' (con_columns c))]"
    unfolding e addedConstraints_diffTable
    using nc by (intro filter_cong refl) (auto simp: constraintKey_eq_iff)
  show "removedConstraints td =
            [c \<leftarrow> constraints ot. \<not> (\<exists>p \<in> set (constraints nt).
                con_type p = con_type c
                \<and> join '','' (con_columns p) = join '','' (con_columns c))]"
    unfolding e removedConstraints_diffTable
    using nc by (intro filter_cong refl) (auto simp: constraintKey_eq_iff)
next
  assume same: "map (\<lambda>c. (con_type c, con_columns c)) (constraints ot)
          = map (\<lambda>c. (con_type c, con_columns c)) (constraints nt)"
  then have k: "addedConstraints (diffTable n ot nt) = [] \<and> removedConstraints (diffTable n ot nt) = []"
    by (intro same_keys_no_constraint_change same_ident_same_keys)
  then show "addedConstraints (diffTable n ot nt) = []" and "removedConstraints (diffTable n ot nt) = []"
    by simp_all
  fix td assume td: "td \<in> set (changedTables (diffSchemas old new))" "td_name td = n"
  with assms have e: "td = diffTable n ot nt" using named_td by blast
  with k show "addedConstraints td = []" and "removedConstraints td = []" by simp_all
qed

lemma constraint_lists_example:
  "(\<exists>td \<in> set (changedTables (diffSchemas exConOld exConNew)). td_name td = ''orders''
      \<and> addedConstraints td = [exUq] \<and> removedConstraints td = [])
   \<and> addedConstraints (diffTable ''orders''
        \<lparr>tbl_name = ''orders'', columns = [], constraints = [exFkOld]\<rparr>
        \<lparr>tbl_name = ''orders'', columns = [], constraints = [exFkNew]\<rparr>) = []
   \<and> removedConstraints (diffTable ''orders''
        \<lparr>tbl_name = ''orders'', columns = [], constraints = [exFkOld]\<rparr>
        \<lparr>tbl_name = ''orders'', columns = [], constraints = [exFkNew]\<rparr>) = []"
proof -
  let ?ot = "\<lparr>tbl_name = ''orders'', columns = [], constraints = [exFkOld]\<rparr>"
  let ?nt = "\<lparr>tbl_name = ''orders'', columns = [], constraints = [exFkNew, exUq]\<rparr>"
  let ?rt = "\<lparr>tbl_name = ''orders'', columns = [], constraints = [exFkNew]\<rparr>"
  have g: "mapGet (tables exConOld) ''orders'' = Some ?ot"
    by (simp add: mapGet_def exConOld_def)
  have w: "wfMap (tables exConNew)"
    by (simp add: wfMap_def mapKeys_def exConNew_def)
  have n: "(''orders'', ?nt) \<in> set (tables exConNew)"
    by (simp add: exConNew_def)
  have colons: "\<forall>c \<in> set (constraints ?ot) \<union> set (constraints ?nt). CHR '':'' \<notin> set (con_type c)"
    by (simp add: exFkOld_def exFkNew_def exUq_def)
  have d: "diffTable ''orders'' ?ot ?nt \<in> set (changedTables (diffSchemas exConOld exConNew))"
    by (simp add: diffSchemas_def exFkOld_def exFkNew_def exUq_def exConOld_def exConNew_def
        mapGet_def diffTable_def hasChanges_def constraintKey_def)
  have t: "td_name (diffTable ''orders'' ?ot ?nt) = ''orders''"
    by (simp add: td_name_diffTable)
  from constraint_lists [OF w n g] colons d t
  have "addedConstraints (diffTable ''orders'' ?ot ?nt) =
          [c \<leftarrow> constraints ?nt. \<not> (\<exists>p \<in> set (constraints ?ot).
              con_type p = con_type c
              \<and> join '','' (con_columns p) = join '','' (con_columns c))]
        \<and> removedConstraints (diffTable ''orders'' ?ot ?nt) =
          [c \<leftarrow> constraints ?ot. \<not> (\<exists>p \<in> set (constraints ?nt).
              con_type p = con_type c
              \<and> join '','' (con_columns p) = join '','' (con_columns c))]"
    by blast
  then have "addedConstraints (diffTable ''orders'' ?ot ?nt) = [exUq]
      \<and> removedConstraints (diffTable ''orders'' ?ot ?nt) = []"
    by (simp add: exFkOld_def exFkNew_def exUq_def)
  with d t have first: "\<exists>td \<in> set (changedTables (diffSchemas exConOld exConNew)).
      td_name td = ''orders'' \<and> addedConstraints td = [exUq] \<and> removedConstraints td = []"
    by blast
  have w': "wfMap (tables exConRenamed)"
    by (simp add: wfMap_def mapKeys_def exConRenamed_def)
  have n': "(''orders'', ?rt) \<in> set (tables exConRenamed)"
    by (simp add: exConRenamed_def)
  have same: "map (\<lambda>c. (con_type c, con_columns c)) (constraints ?ot)
      = map (\<lambda>c. (con_type c, con_columns c)) (constraints ?rt)"
    by (simp add: exFkOld_def exFkNew_def)
  from constraint_lists [OF w' n' g] same
  have "addedConstraints (diffTable ''orders'' ?ot ?rt) = []
      \<and> removedConstraints (diffTable ''orders'' ?ot ?rt) = []"
    by blast
  with first show ?thesis by simp
qed

text \<open>
  And every unmatched constraint is reported: a constraint of one table whose key no
  constraint of the other table has stands in the added (or removed) constraints of a
  TableDiff under the table's name.
\<close>

lemma unmatched_constraint_reported:
  assumes "(n, nt) \<in> set (tables new)" and "mapGet (tables old) n = Some ot"
  shows
    "(\<forall>c \<in> set (constraints nt).
        (\<forall>p \<in> set (constraints ot). constraintKey p \<noteq> constraintKey c) \<longrightarrow>
        (\<exists>td \<in> set (changedTables (diffSchemas old new)).
            td_name td = n \<and> c \<in> set (addedConstraints td)))
     \<and> (\<forall>c \<in> set (constraints ot).
        (\<forall>p \<in> set (constraints nt). constraintKey p \<noteq> constraintKey c) \<longrightarrow>
        (\<exists>td \<in> set (changedTables (diffSchemas old new)).
            td_name td = n \<and> c \<in> set (removedConstraints td)))"
proof (intro conjI ballI impI)
  fix c
  assume c: "c \<in> set (constraints nt)"
    and u: "\<forall>p \<in> set (constraints ot). constraintKey p \<noteq> constraintKey c"
  then have m: "c \<in> set (addedConstraints (diffTable n ot nt))"
    by (simp add: addedConstraints_diffTable)
  then have "hasChanges (diffTable n ot nt)"
    by (auto simp: hasChanges_def)
  with assms have "diffTable n ot nt \<in> set (changedTables (diffSchemas old new))"
    unfolding changedTables_iff by blast
  with m show "\<exists>td \<in> set (changedTables (diffSchemas old new)).
      td_name td = n \<and> c \<in> set (addedConstraints td)"
    using td_name_diffTable by blast
next
  fix c
  assume c: "c \<in> set (constraints ot)"
    and u: "\<forall>p \<in> set (constraints nt). constraintKey p \<noteq> constraintKey c"
  then have m: "c \<in> set (removedConstraints (diffTable n ot nt))"
    by (simp add: removedConstraints_diffTable)
  then have "hasChanges (diffTable n ot nt)"
    by (auto simp: hasChanges_def)
  with assms have "diffTable n ot nt \<in> set (changedTables (diffSchemas old new))"
    unfolding changedTables_iff by blast
  with m show "\<exists>td \<in> set (changedTables (diffSchemas old new)).
      td_name td = n \<and> c \<in> set (removedConstraints td)"
    using td_name_diffTable by blast
qed

text \<open>
  Claim C6 fails on the code. The key of a constraint is its type, a colon and its
  columns joined by commas, and a colon inside the type is not told from the separator.
  The two JSON schemas below parse to \<open>exColonOld\<close> and \<open>exColonNew\<close>; their
  constraints differ in type and in their joined columns, both have the key
  \<^verbatim>\<open>A:B:c\<close>, and \<open>diffSchemas\<close> reports no added and no removed constraint.
\<close>

theorem constraint_key_collision:
  "parseJSONSchema (Some (JObj [(''t'', JObj [(''constraints'', JArr [JObj
       [(''name'', JStr ''a''), (''type'', JStr ''A:B''), (''columns'', JArr [JStr ''c''])]])])]))
     = Inr exColonOld
   \<and> parseJSONSchema (Some (JObj [(''t'', JObj [(''constraints'', JArr [JObj
       [(''name'', JStr ''b''), (''type'', JStr ''A''), (''columns'', JArr [JStr ''B:c''])]])])]))
     = Inr exColonNew
   \<and> con_type exColonA \<noteq> con_type exColonB
   \<and> join '','' (con_columns exColonA) \<noteq> join '','' (con_columns exColonB)
   \<and> constraintKey exColonA = ''A:B:c''
   \<and> constraintKey exColonB = ''A:B:c''
   \<and> mapGet (tables exColonOld) ''t'' = Some \<lparr>tbl_name = ''t'', columns = [], constraints = [exColonA]\<rparr>
   \<and> mapGet (tables exColonNew) ''t'' = Some \<lparr>tbl_name = ''t'', columns = [], constraints = [exColonB]\<rparr>
   \<and> diffSchemas exColonOld exColonNew = \<lparr>addedTables = [], removedTables = [], changedTables = []\<rparr>"
  by code_simp

text \<open>
  Claim C4 fails on the code. The type of a column is not cut at the next modifier: the
  second group of line 144 runs over word characters, parentheses, spaces and commas,
  so it takes the modifiers with it. The clause \<^verbatim>\<open>id INTEGER PRIMARY KEY\<close> is a column
  clause and its type is \<^verbatim>\<open>INTEGER PRIMARY KEY\<close>; the clause \<^verbatim>\<open>age INT DEFAULT 0\<close>
  has the type \<^verbatim>\<open>INT DEFAULT 0\<close>, with defaultVal \<^verbatim>\<open>0\<close>.
\<close>

theorem parseColumn_type_keeps_modifiers:
  "isColumnClause ''id INTEGER PRIMARY KEY''
   \<and> parseColumn ''id INTEGER PRIMARY KEY'' =
       Some \<lparr>col_name = ''id'', col_type = ''INTEGER PRIMARY KEY'', nullable = False,
             defaultVal = None, primaryKey = True, unique = False\<rparr>
   \<and> isColumnClause ''age INT DEFAULT 0''
   \<and> parseColumn ''age INT DEFAULT 0'' =
       Some \<lparr>col_name = ''age'', col_type = ''INT DEFAULT 0'', nullable = True,
             defaultVal = Some ''0'', primaryKey = False, unique = False\<rparr>
   \<and> map (\<lambda>(k, c). (k, col_type c)) (bodyColumns ''id INTEGER PRIMARY KEY, age INT DEFAULT 0'') =
       [(''id'', ''INTEGER PRIMARY KEY''), (''age'', ''INT DEFAULT 0'')]"
  by code_simp

text \<open>
  What follows for the diff: between a table parsed from \<^verbatim>\<open>age INT\<close> and one parsed
  from \<^verbatim>\<open>age INT DEFAULT 0\<close>, the change of default alone is reported as a change of
  type, and so as breaking.
\<close>

lemma sql_default_reported_as_type_change:
  "changedTables
     (diffSchemas
        \<lparr>tables = [(''t'', \<lparr>tbl_name = ''t'', columns = bodyColumns ''age INT'',
                            constraints = []\<rparr>)]\<rparr>
        \<lparr>tables = [(''t'', \<lparr>tbl_name = ''t'', columns = bodyColumns ''age INT DEFAULT 0'',
                            constraints = []\<rparr>)]\<rparr>) =
     [\<lparr>td_name = ''t'',
       addedColumns = [],
       removedColumns = [],
       changedColumns =
         [\<lparr>cc_name = ''age'', oldType = ''INT'', newType = ''INT DEFAULT 0'',
           oldNullable = True, newNullable = True, oldDefault = None,
           newDefault = Some ''0'', breaking = True\<rparr>],
       addedConstraints = [],
       removedConstraints = []\<rparr>]"
  by code_simp

text \<open>
  Claim C5 fails on the code. The text \<^verbatim>\<open>null\<close> is well-formed JSON and
  \<open>parseJSONSchema\<close> raises a TypeError on it; so it does on a table definition that
  is \<^verbatim>\<open>null\<close>, on a column definition that is \<^verbatim>\<open>null\<close> and on a constraint that
  is \<^verbatim>\<open>null\<close>.
\<close>

theorem parseJSONSchema_null_raises:
  "parseJSONSchema (Some JNull) = Inl TypeError
   \<and> parseJSONSchema (Some (JObj [(''users'', JNull)])) = Inl TypeError
   \<and> parseJSONSchema (Some (JObj [(''tables'', JObj [(''users'', JNull)])])) = Inl TypeError
   \<and> parseJSONSchema (Some (JObj [(''users'', JObj [(''columns'', JObj [(''id'', JNull)])])]))
       = Inl TypeError
   \<and> parseJSONSchema (Some (JObj [(''users'', JObj [(''constraints'', JArr [JNull])])]))
       = Inl TypeError"
  by code_simp

end
